theory Spec2Isabelle
  imports Complex_Main "HOL-Library.Multiset"
begin

section \<open>Campus BookSwap: the conversation and notification engine\<close>

text \<open>
  A shallow embedding of \<^verbatim>\<open>js/notifications.js\<close> (class \<^verbatim>\<open>NotificationSystem\<close>),
  \<^verbatim>\<open>js/messaging.js\<close> (class \<^verbatim>\<open>MessagingSystem\<close>) and \<^verbatim>\<open>js/book-messaging.js\<close>
  (class \<^verbatim>\<open>BookMessaging\<close>).

  Conventions. An object with mutable fields is a record that every method takes and
  returns. \<^verbatim>\<open>localStorage\<close> is part of that record: an entry is \<open>None\<close> when the key is
  absent, and \<^verbatim>\<open>JSON.parse (JSON.stringify v)\<close> is the identity on the values stored here.
  The clock (\<^verbatim>\<open>Date.now()\<close>, \<^verbatim>\<open>new Date()\<close>) and \<^verbatim>\<open>Math.random()\<close> are arguments.
  A timestamp is the number of milliseconds that its ISO string denotes.
  Identifiers, names and the texts that the program itself writes are ASCII strings. A text
  that a user types is a JavaScript string, a list of UTF-16 code units.
\<close>

subsection \<open>Strings\<close>

definition digit_char :: "nat \<Rightarrow> char" where
  "digit_char d = ''0123456789'' ! (d mod 10)"

text \<open>\<^verbatim>\<open>Number.prototype.toString()\<close> on a non-negative integer.\<close>

fun dec :: "nat \<Rightarrow> string" where
  "dec n = (if n < 10 then [digit_char n] else dec (n div 10) @ [digit_char (n mod 10)])"

declare dec.simps [simp del]

text \<open>A JavaScript string by its code units, and an ASCII text as one.\<close>

type_synonym jstring = "nat list"

definition js :: "string \<Rightarrow> jstring" where
  "js s = map of_char s"

text \<open>
  The code units that \<^verbatim>\<open>String.prototype.trim()\<close> strips: the white space of ECMAScript
  (tab, vertical tab, form feed, the byte order mark and the space separators of Unicode,
  among them the space and the no-break space) and its line terminators (line feed,
  carriage return, line separator and paragraph separator).
\<close>

definition is_ws :: "nat \<Rightarrow> bool" where
  "is_ws u =
     (u \<in> set [0x09, 0x0A, 0x0B, 0x0C, 0x0D, 0x20, 0xA0, 0x1680, 0x2028, 0x2029, 0x202F,
               0x205F, 0x3000, 0xFEFF]
      \<or> (0x2000 \<le> u \<and> u \<le> 0x200A))"

text \<open>\<^verbatim>\<open>String.prototype.trim()\<close>.\<close>

definition trim :: "jstring \<Rightarrow> jstring" where
  "trim s = rev (dropWhile is_ws (rev (dropWhile is_ws s)))"

subsection \<open>Data\<close>

record user =
  u_id :: string
  u_name :: string

record notification =
  n_id :: string
  n_type :: string
  n_message :: string
  n_timestamp :: nat
  n_read :: bool
  n_seen :: bool
  n_data :: "(string \<times> string) list"
  n_link :: "string option"

text \<open>The argument of \<^verbatim>\<open>addNotification\<close>: \<^verbatim>\<open>data\<close> and \<^verbatim>\<open>link\<close> may be missing.\<close>

record notification_request =
  q_type :: string
  q_message :: string
  q_data :: "(string \<times> string) list option"
  q_link :: "string option"

text \<open>The \<^verbatim>\<open>.notification-badge\<close> element: its text and its \<^verbatim>\<open>style.display\<close>.\<close>

record badge_el =
  b_text :: string
  b_display :: string

text \<open>
  One \<^verbatim>\<open>NotificationSystem\<close> object with the part of the page and of the store it works on.
  \<open>ns_badge\<close>, \<open>ns_list\<close> and \<open>ns_menu\<close> are the elements \<^verbatim>\<open>.notification-badge\<close>,
  \<^verbatim>\<open>.notification-list\<close> (the notifications it shows; the empty list is the placeholder
  "No notifications yet") and \<^verbatim>\<open>.notification-menu\<close> (whether it has the class \<^verbatim>\<open>show\<close>);
  each is \<open>None\<close> when \<^verbatim>\<open>document.querySelector\<close> finds no such element.
  \<open>ns_toasts\<close> lists the toasts appended to the toast container, \<open>ns_writes\<close> counts the
  calls of \<^verbatim>\<open>localStorage.setItem\<close>.
\<close>

record ns_state =
  ns_notifications :: "notification list"
  ns_unreadCount :: nat
  ns_currentUser :: "user option"
  ns_stored :: "notification list option"
  ns_stored_user :: "user option"
  ns_writes :: nat
  ns_badge :: "badge_el option"
  ns_list :: "notification list option"
  ns_menu :: "bool option"
  ns_toasts :: "notification list"

subsection \<open>The notification repository\<close>

definition getCurrentUser :: "ns_state \<Rightarrow> user option" where
  "getCurrentUser s = ns_stored_user s"

definition loadNotificationsFromStorage :: "ns_state \<Rightarrow> notification list option" where
  "loadNotificationsFromStorage s = ns_stored s"

definition saveNotificationsToStorage :: "ns_state \<Rightarrow> ns_state" where
  "saveNotificationsToStorage s =
     s\<lparr>ns_stored := Some (ns_notifications s), ns_writes := Suc (ns_writes s)\<rparr>"

definition getUnreadCount :: "ns_state \<Rightarrow> nat" where
  "getUnreadCount s =
     (if ns_notifications s = [] then 0
      else length (filter (\<lambda>n. \<not> n_read n) (ns_notifications s)))"

definition updateNotificationBadge :: "ns_state \<Rightarrow> ns_state" where
  "updateNotificationBadge s =
     (case ns_badge s of
        None \<Rightarrow> s
      | Some b \<Rightarrow>
          let c = getUnreadCount s in
          s\<lparr>ns_unreadCount := c,
            ns_badge := Some (if c > 0
              then \<lparr>b_text = (if c > 9 then ''9+'' else dec c), b_display = ''flex''\<rparr>
              else b\<lparr>b_display := ''none''\<rparr>)\<rparr>)"

text \<open>
  \<^verbatim>\<open>[...this.notifications].sort((a, b) => new Date(b.timestamp) - new Date(a.timestamp))\<close>:
  \<^verbatim>\<open>Array.prototype.sort\<close> is stable, and the stable arrangement of a list by a key is
  unique; \<open>sort_key\<close> computes it.
\<close>

definition sortedNotifications :: "notification list \<Rightarrow> notification list" where
  "sortedNotifications ns = sort_key (\<lambda>n. - int (n_timestamp n)) ns"

definition recentNotifications :: "notification list \<Rightarrow> notification list" where
  "recentNotifications ns = take 5 (sortedNotifications ns)"

definition renderNotifications :: "ns_state \<Rightarrow> ns_state" where
  "renderNotifications s =
     (case ns_list s of
        None \<Rightarrow> s
      | Some _ \<Rightarrow>
          if ns_notifications s = [] then s\<lparr>ns_list := Some []\<rparr>
          else s\<lparr>ns_list := Some (recentNotifications (ns_notifications s))\<rparr>)"

text \<open>The items of the full notifications page (\<^verbatim>\<open>generateNotificationsPage\<close>), in order.\<close>

definition generateNotificationsPage :: "ns_state \<Rightarrow> notification list" where
  "generateNotificationsPage s =
     (if ns_notifications s = [] then [] else sortedNotifications (ns_notifications s))"

definition markAllAsRead :: "ns_state \<Rightarrow> ns_state" where
  "markAllAsRead s =
     (if ns_notifications s = [] then s
      else renderNotifications (updateNotificationBadge (saveNotificationsToStorage
        (s\<lparr>ns_notifications := map (\<lambda>n. n\<lparr>n_read := True\<rparr>) (ns_notifications s)\<rparr>))))"

definition markNotificationsAsSeen :: "ns_state \<Rightarrow> ns_state" where
  "markNotificationsAsSeen s =
     (if ns_notifications s = [] then s
      else updateNotificationBadge (saveNotificationsToStorage
        (s\<lparr>ns_notifications := map (\<lambda>n. n\<lparr>n_seen := True\<rparr>) (ns_notifications s)\<rparr>)))"

definition toggleNotificationDropdown :: "ns_state \<Rightarrow> ns_state" where
  "toggleNotificationDropdown s =
     (case ns_menu s of
        None \<Rightarrow> s
      | Some shown \<Rightarrow>
          let s' = s\<lparr>ns_menu := Some (\<not> shown)\<rparr> in
          if \<not> shown then markNotificationsAsSeen s' else s')"

text \<open>
  \<^verbatim>\<open>this.notifications.find(n => n.id === notificationId)\<close> followed by the assignment
  \<^verbatim>\<open>notification.read = true\<close> to the object found: the first notification with that id.
\<close>

fun mark_first :: "string \<Rightarrow> notification list \<Rightarrow> notification list" where
  "mark_first nid [] = []"
| "mark_first nid (n # ns) =
     (if n_id n = nid then n\<lparr>n_read := True\<rparr> # ns else n # mark_first nid ns)"

definition markAsRead :: "string \<Rightarrow> ns_state \<Rightarrow> ns_state" where
  "markAsRead nid s =
     (case find (\<lambda>n. n_id n = nid) (ns_notifications s) of
        None \<Rightarrow> s
      | Some _ \<Rightarrow>
          renderNotifications (updateNotificationBadge (saveNotificationsToStorage
            (s\<lparr>ns_notifications := mark_first nid (ns_notifications s)\<rparr>))))"

text \<open>
  \<^verbatim>\<open>showToastNotification\<close> as the repository sees it: one more toast in the container.
  The life of a toast is the subject of the section on toasts.
\<close>

definition showToastNotification :: "notification \<Rightarrow> ns_state \<Rightarrow> ns_state" where
  "showToastNotification n s = s\<lparr>ns_toasts := ns_toasts s @ [n]\<rparr>"

text \<open>
  \<^verbatim>\<open>addNotification\<close>. \<open>now\<close> is the clock, \<open>suffix\<close> the text of
  \<^verbatim>\<open>Math.random().toString(36).substr(2, 9)\<close>. The method returns \<^verbatim>\<open>false\<close> or \<^verbatim>\<open>true\<close>.
  \<^verbatim>\<open>notification.link || null\<close> turns the empty string into \<^verbatim>\<open>null\<close>.
\<close>

definition newNotification :: "nat \<Rightarrow> string \<Rightarrow> notification_request \<Rightarrow> notification" where
  "newNotification now suffix q =
     \<lparr>n_id = ''notification_'' @ dec now @ ''_'' @ suffix,
      n_type = q_type q,
      n_message = q_message q,
      n_timestamp = now,
      n_read = False,
      n_seen = False,
      n_data = (case q_data q of None \<Rightarrow> [] | Some d \<Rightarrow> d),
      n_link = (case q_link q of None \<Rightarrow> None | Some l \<Rightarrow> if l = [] then None else Some l)\<rparr>"

text \<open>What a caller of a method may be handed back: a boolean or a notification object.\<close>

datatype js_value = JBool bool | JNotification notification

definition addNotification ::
  "nat \<Rightarrow> string \<Rightarrow> notification_request \<Rightarrow> ns_state \<Rightarrow> js_value \<times> ns_state" where
  "addNotification now suffix q s =
     (case ns_currentUser s of
        None \<Rightarrow> (JBool False, s)
      | Some _ \<Rightarrow>
          let n = newNotification now suffix q in
          (JBool True,
           showToastNotification n (renderNotifications (updateNotificationBadge
             (saveNotificationsToStorage (s\<lparr>ns_notifications := n # ns_notifications s\<rparr>))))))"

text \<open>
  The constructor. \<open>p\<close> is the page it is created on: only the store and the elements
  of \<open>p\<close> are read (the elements as \<^verbatim>\<open>createNotificationElements\<close> leaves them).
\<close>

definition NotificationSystem :: "ns_state \<Rightarrow> ns_state" where
  "NotificationSystem p =
     (let s1 = p\<lparr>ns_notifications :=
                  (case loadNotificationsFromStorage p of None \<Rightarrow> [] | Some l \<Rightarrow> l)\<rparr>;
          s2 = s1\<lparr>ns_unreadCount := getUnreadCount s1\<rparr>;
          s3 = s2\<lparr>ns_currentUser := getCurrentUser s2\<rparr>
      in updateNotificationBadge s3)"

text \<open>
  Logging out is done by other modules of the page or of another tab
  (\<^verbatim>\<open>localStorage.removeItem('currentUser')\<close>); no field of the object changes.
\<close>

definition logout :: "ns_state \<Rightarrow> ns_state" where
  "logout s = s\<lparr>ns_stored_user := None\<rparr>"

subsection \<open>The simulated event source\<close>

text \<open>
  The values that one tick draws from \<^verbatim>\<open>Math.random()\<close>, each in \<open>[0, 1)\<close>, and the two
  random suffixes. \<^verbatim>\<open>xs[Math.floor(r * xs.length)]\<close> is in range for such a draw.
\<close>

record draw =
  d_gate :: real
  d_type :: real
  d_pick :: real
  d_data :: string
  d_id :: string

definition pick :: "real \<Rightarrow> string list \<Rightarrow> string" where
  "pick r xs =
     (let i = nat \<lfloor>r * real (length xs)\<rfloor> in if i < length xs then xs ! i else ''undefined'')"

definition notificationTypes :: "string list" where
  "notificationTypes = [''new_listing'', ''message'', ''transaction'', ''review'', ''system'']"

definition simulated_request :: "draw \<Rightarrow> notification_request" where
  "simulated_request d =
     (let t = pick (d_type d) notificationTypes in
      if t = ''new_listing'' then
        \<lparr>q_type = t,
         q_message = ''New '' @ pick (d_pick d)
             [''Calculus'', ''Physics'', ''Computer Science'', ''Biology'', ''Chemistry'']
           @ '' textbook listed in your department'',
         q_data = Some [(''bookId'', ''book_'' @ d_data d)],
         q_link = Some ''browse.html''\<rparr>
      else if t = ''message'' then
        \<lparr>q_type = t,
         q_message = ''New message from '' @ pick (d_pick d)
             [''Alex'', ''Jordan'', ''Taylor'', ''Morgan'', ''Casey'']
           @ '' about your book listing'',
         q_data = Some [(''conversationId'', ''conv_'' @ d_data d)],
         q_link = Some ''messages.html''\<rparr>
      else if t = ''transaction'' then
        \<lparr>q_type = t,
         q_message = pick (d_pick d)
             [''Payment received'', ''Book sold'', ''New purchase'', ''Transaction completed'']
           @ '' - check your transactions'',
         q_data = Some [(''transactionId'', ''trans_'' @ d_data d)],
         q_link = Some ''dashboard.html?tab=transactions''\<rparr>
      else if t = ''review'' then
        \<lparr>q_type = t,
         q_message = ''Someone left a new review on your book listing'',
         q_data = Some [(''reviewId'', ''review_'' @ d_data d)],
         q_link = Some ''dashboard.html?tab=reviews''\<rparr>
      else if t = ''system'' then
        \<lparr>q_type = t,
         q_message = pick (d_pick d)
             [''Welcome to Campus BookSwap!'', ''Your account has been verified'',
              ''New feature: Book price comparison is now available'',
              ''Maintenance scheduled for tonight'', ''Your listing is about to expire''],
         q_data = Some [],
         q_link = None\<rparr>
      else \<lparr>q_type = t, q_message = [], q_data = Some [], q_link = None\<rparr>)"

definition simulateNewNotification :: "nat \<Rightarrow> draw \<Rightarrow> ns_state \<Rightarrow> ns_state" where
  "simulateNewNotification now d s = snd (addNotification now (d_id d) (simulated_request d) s)"

text \<open>The callback that \<^verbatim>\<open>startNotificationPolling\<close> gives to \<^verbatim>\<open>setInterval\<close>.\<close>

definition pollingTick :: "nat \<Rightarrow> draw \<Rightarrow> ns_state \<Rightarrow> ns_state" where
  "pollingTick now d s =
     (case ns_currentUser s of
        None \<Rightarrow> s
      | Some _ \<Rightarrow> if d_gate d < 1 / 10 then simulateNewNotification now d s else s)"

subsection \<open>Reachable states\<close>

definition stored_list :: "ns_state \<Rightarrow> notification list" where
  "stored_list s = (case ns_stored s of None \<Rightarrow> [] | Some l \<Rightarrow> l)"

text \<open>
  One step of an object: a call of one of its methods by a listener or by another module,
  a tick of its timer, or a logout on the page.
\<close>

inductive step :: "ns_state \<Rightarrow> ns_state \<Rightarrow> bool" where
  s_add: "step s (snd (addNotification now suffix q s))"
| s_all_read: "step s (markAllAsRead s)"
| s_seen: "step s (markNotificationsAsSeen s)"
| s_toggle: "step s (toggleNotificationDropdown s)"
| s_read: "step s (markAsRead nid s)"
| s_tick: "step s (pollingTick now d s)"
| s_logout: "step s (logout s)"

text \<open>The states of an object that is the only one to work on the store.\<close>

inductive reachable_alone :: "ns_state \<Rightarrow> bool" where
  ra_new: "reachable_alone (NotificationSystem p)"
| ra_step: "reachable_alone s \<Longrightarrow> step s s' \<Longrightarrow> reachable_alone s'"

text \<open>
  On the notifications page \<^verbatim>\<open>features.js\<close> constructs two objects, one after the other
  (\<^verbatim>\<open>initializeNotifications\<close>, then \<^verbatim>\<open>initializeNotificationsPage\<close>). They share the page
  and the store; each has its own list, its own count, its own copy of the user and its
  own timer. \<open>see p x\<close> is the object of \<open>x\<close> on the page and the store as \<open>p\<close> has them.
\<close>

definition see :: "ns_state \<Rightarrow> ns_state \<Rightarrow> ns_state" where
  "see p x =
     p\<lparr>ns_notifications := ns_notifications x, ns_unreadCount := ns_unreadCount x,
       ns_currentUser := ns_currentUser x\<rparr>"

inductive reachable_pair :: "ns_state \<Rightarrow> ns_state \<Rightarrow> bool" where
  rp_new:
    "reachable_pair (see (NotificationSystem (NotificationSystem p)) (NotificationSystem p))
       (NotificationSystem (NotificationSystem p))"
| rp_first: "reachable_pair a b \<Longrightarrow> step a a' \<Longrightarrow> reachable_pair a' (see a' b)"
| rp_second: "reachable_pair a b \<Longrightarrow> step b b' \<Longrightarrow> reachable_pair (see b' a) b'"

section \<open>Toasts\<close>

text \<open>
  One toast of \<^verbatim>\<open>showToastNotification\<close> and its timers. \<open>t_attached\<close> is
  \<^verbatim>\<open>toastContainer.contains(toast)\<close>, \<open>t_hiding\<close> and \<open>t_visible\<close> are the classes
  \<^verbatim>\<open>toast-hiding\<close> and \<^verbatim>\<open>toast-visible\<close>, \<open>t_removals\<close> counts the calls of
  \<^verbatim>\<open>removeChild\<close> that detached the toast, \<open>t_timers\<close> holds the pending \<^verbatim>\<open>setTimeout\<close>
  callbacks with the time each is due, in the order they were registered, and \<open>t_errors\<close>
  the exceptions that callbacks have thrown. Times are in milliseconds.
\<close>

datatype timer_action = AutoHide | ShowToast | RemoveChild | RemoveChildIfContained

datatype dom_error = NotFoundError

record toast_state =
  t_attached :: bool
  t_hiding :: bool
  t_visible :: bool
  t_removals :: nat
  t_timers :: "(nat \<times> timer_action) list"
  t_errors :: "dom_error list"

datatype toast_event = CloseClick | ToastClick

definition setTimeout :: "timer_action \<Rightarrow> nat \<Rightarrow> nat \<Rightarrow> toast_state \<Rightarrow> toast_state" where
  "setTimeout a delay now st = st\<lparr>t_timers := t_timers st @ [(now + delay, a)]\<rparr>"

text \<open>The toast as \<^verbatim>\<open>showToastNotification\<close> leaves it when called at time \<open>T\<close>.\<close>

definition toast_created :: "nat \<Rightarrow> toast_state" where
  "toast_created T =
     setTimeout ShowToast 10 T (setTimeout AutoHide 5000 T
       \<lparr>t_attached = True, t_hiding = False, t_visible = False, t_removals = 0,
        t_timers = [], t_errors = []\<rparr>)"

text \<open>\<^verbatim>\<open>toastContainer.removeChild(toast)\<close> throws when the toast is not a child.\<close>

definition removeChild :: "toast_state \<Rightarrow> dom_error + toast_state" where
  "removeChild st =
     (if t_attached st then Inr (st\<lparr>t_attached := False, t_removals := Suc (t_removals st)\<rparr>)
      else Inl NotFoundError)"

definition run_callback :: "timer_action \<Rightarrow> nat \<Rightarrow> toast_state \<Rightarrow> dom_error + toast_state" where
  "run_callback a now st =
     (case a of
        ShowToast \<Rightarrow> Inr (st\<lparr>t_visible := True\<rparr>)
      | AutoHide \<Rightarrow> Inr (setTimeout RemoveChildIfContained 300 now (st\<lparr>t_hiding := True\<rparr>))
      | RemoveChild \<Rightarrow> removeChild st
      | RemoveChildIfContained \<Rightarrow> if t_attached st then removeChild st else Inr st)"

text \<open>
  The click listeners: the one of the close button, and the one of the toast for a click
  outside the close button (its call of \<^verbatim>\<open>handleNotificationClick\<close> belongs to the
  repository and is not part of the toast).
\<close>

definition on_click :: "toast_event \<Rightarrow> nat \<Rightarrow> toast_state \<Rightarrow> toast_state" where
  "on_click e now st =
     (case e of
        CloseClick \<Rightarrow> setTimeout RemoveChild 300 now (st\<lparr>t_hiding := True\<rparr>)
      | ToastClick \<Rightarrow> setTimeout RemoveChildIfContained 300 now (st\<lparr>t_hiding := True\<rparr>))"

text \<open>
  The event loop. The timer that is due first runs first, the one registered first among
  those due at the same time. An exception leaves a callback; the loop goes on.
\<close>

fun earliest :: "(nat \<times> timer_action) list \<Rightarrow> (nat \<times> timer_action) option" where
  "earliest [] = None"
| "earliest (x # xs) =
     (case earliest xs of
        None \<Rightarrow> Some x
      | Some y \<Rightarrow> if fst y < fst x then Some y else Some x)"

definition fire :: "nat \<times> timer_action \<Rightarrow> toast_state \<Rightarrow> toast_state" where
  "fire x st =
     (let st' = st\<lparr>t_timers := remove1 x (t_timers st)\<rparr> in
      case run_callback (snd x) (fst x) st' of
        Inl e \<Rightarrow> st'\<lparr>t_errors := t_errors st' @ [e]\<rparr>
      | Inr st'' \<Rightarrow> st'')"

definition timer_weight :: "nat \<times> timer_action \<Rightarrow> nat" where
  "timer_weight x = (case snd x of AutoHide \<Rightarrow> 2 | _ \<Rightarrow> 1)"

definition is_due :: "nat option \<Rightarrow> nat \<Rightarrow> bool" where
  "is_due bound due = (case bound of None \<Rightarrow> True | Some t \<Rightarrow> due \<le> t)"

lemma earliest_mem: "earliest xs = Some x \<Longrightarrow> x \<in> set xs"
  by (induction xs arbitrary: x) (auto split: option.splits if_splits)

lemma weight_remove1:
  "x \<in> set xs \<Longrightarrow>
   sum_list (map timer_weight (remove1 x xs)) + timer_weight x = sum_list (map timer_weight xs)"
  by (induction xs) auto

lemma fire_weight:
  assumes "x \<in> set (t_timers st)"
  shows "sum_list (map timer_weight (t_timers (fire x st)))
       < sum_list (map timer_weight (t_timers st))"
proof -
  have "sum_list (map timer_weight (remove1 x (t_timers st))) + timer_weight x
      = sum_list (map timer_weight (t_timers st))"
    using assms by (rule weight_remove1)
  then show ?thesis
    by (cases x; cases "snd x")
       (auto simp: fire_def run_callback_def removeChild_def setTimeout_def timer_weight_def
          Let_def)
qed

text \<open>
  Run every timer that is due by the bound (\<open>None\<close>: every timer, until none is left).
\<close>

function advance :: "nat option \<Rightarrow> toast_state \<Rightarrow> toast_state" where
  "advance bound st =
     (case earliest (t_timers st) of
        None \<Rightarrow> st
      | Some x \<Rightarrow> if is_due bound (fst x) then advance bound (fire x st) else st)"
  by pat_completeness auto
termination
  by (relation "measure (\<lambda>(bound, st). sum_list (map timer_weight (t_timers st)))")
     (auto dest!: earliest_mem intro: fire_weight)

declare advance.simps [simp del]

text \<open>
  A run of the page: the clicks of the user, each with its time, in order; the timers due
  by then run before a click, and the remaining timers after the last one.
\<close>

fun run :: "(nat \<times> toast_event) list \<Rightarrow> toast_state \<Rightarrow> toast_state" where
  "run [] st = advance None st"
| "run ((t, e) # es) st = run es (on_click e t (advance (Some t) st))"


section \<open>Conversations\<close>

record participant =
  p_id :: string
  p_name :: string
  p_whatsappNumber :: "string option"

record message =
  m_id :: string
  m_senderId :: string
  m_text :: jstring
  m_timestamp :: nat
  m_read :: bool

record conversation =
  c_id :: string
  c_participants :: "participant list"
  c_bookId :: string
  c_bookTitle :: string
  c_messages :: "message list"

record book =
  k_id :: string
  k_title :: string

text \<open>
  Reading a property of \<^verbatim>\<open>null\<close> or \<^verbatim>\<open>undefined\<close> throws. A call is modelled by how it
  ended (\<open>None\<close>: it returned; every method here returns \<^verbatim>\<open>undefined\<close>, or the value
  given besides) and by the state it left.
\<close>

datatype js_error = TypeError

definition and_then ::
  "js_error option \<times> 's \<Rightarrow> ('s \<Rightarrow> js_error option \<times> 's) \<Rightarrow> js_error option \<times> 's" where
  "and_then r f = (case r of (Some e, s) \<Rightarrow> (Some e, s) | (None, s) \<Rightarrow> f s)"

text \<open>
  The first element that satisfies \<open>P\<close>, changed by \<open>f\<close>: what an assignment to the object
  that \<^verbatim>\<open>Array.prototype.find\<close> returned does to the array.
\<close>

fun update_first :: "('a \<Rightarrow> bool) \<Rightarrow> ('a \<Rightarrow> 'a) \<Rightarrow> 'a list \<Rightarrow> 'a list" where
  "update_first P f [] = []"
| "update_first P f (x # xs) = (if P x then f x # xs else x # update_first P f xs)"

definition newMessage :: "nat \<Rightarrow> string \<Rightarrow> jstring \<Rightarrow> message" where
  "newMessage now senderId text =
     \<lparr>m_id = dec now, m_senderId = senderId, m_text = text, m_timestamp = now,
      m_read = False\<rparr>"

definition push_message :: "message \<Rightarrow> conversation \<Rightarrow> conversation" where
  "push_message m c = c\<lparr>c_messages := c_messages c @ [m]\<rparr>"

subsection \<open>The messaging system of the dashboard\<close>

text \<open>
  The chat header, by the elements it has (\<open>None\<close>: no such element): the avatar with the
  name whose initials it shows, the heading with the name, the paragraph with the title of
  the book.
\<close>

record chat_header =
  h_avatar :: "string option"
  h_name :: "string option"
  h_book :: "string option"

text \<open>
  One \<^verbatim>\<open>MessagingSystem\<close> object with the store and the page it works on: the entry
  \<^verbatim>\<open>bookswap_conversations\<close> (\<open>ms_stored\<close>), the number of calls of \<^verbatim>\<open>setItem\<close>, the
  value of the chat input, the alerts shown, the ids of the items in
  \<^verbatim>\<open>.conversations-list\<close> (the empty list is also the placeholder "No Messages Yet"), the
  messages in \<^verbatim>\<open>.chat-messages\<close> and the chat header. An element of the page is \<open>None\<close>
  when \<^verbatim>\<open>document.querySelector\<close> finds none.
\<close>

record ms_state =
  ms_currentUser :: "user option"
  ms_conversations :: "conversation list"
  ms_activeConversationId :: "string option"
  ms_stored :: "conversation list option"
  ms_writes :: nat
  ms_chatInput :: "jstring option"
  ms_alerts :: "string list"
  ms_list :: "string list option"
  ms_chat :: "message list option"
  ms_header :: "chat_header option"


definition saveConversationsToStorage :: "ms_state \<Rightarrow> ms_state" where
  "saveConversationsToStorage s =
     s\<lparr>ms_stored := Some (ms_conversations s), ms_writes := Suc (ms_writes s)\<rparr>"

text \<open>
  \<^verbatim>\<open>createConversationItem\<close> reads \<^verbatim>\<open>this.currentUser.id\<close> for the first participant, the
  timestamp of the last message, and the name of the first participant who is not the
  current user. Without a current user it throws for every conversation (at the first
  participant, or at the name of a partner that \<^verbatim>\<open>find\<close> did not give); with one it throws
  when there is no message or no such participant.
\<close>

definition createConversationItem :: "user option \<Rightarrow> conversation \<Rightarrow> js_error + string" where
  "createConversationItem cu c =
     (case cu of
        None \<Rightarrow> Inl TypeError
      | Some u \<Rightarrow>
          if c_messages c = [] \<or> find (\<lambda>p. p_id p \<noteq> u_id u) (c_participants c) = None
          then Inl TypeError else Inr (c_id c))"

text \<open>The loop of \<^verbatim>\<open>displayConversations\<close>: the items appended before one throws stay.\<close>

fun render_items ::
  "user option \<Rightarrow> conversation list \<Rightarrow> string list \<Rightarrow> js_error option \<times> string list" where
  "render_items cu [] shown = (None, shown)"
| "render_items cu (c # cs) shown =
     (case createConversationItem cu c of
        Inl e \<Rightarrow> (Some e, shown)
      | Inr i \<Rightarrow> render_items cu cs (shown @ [i]))"

definition displayConversations :: "ms_state \<Rightarrow> js_error option \<times> ms_state" where
  "displayConversations s =
     (case ms_list s of
        None \<Rightarrow> (None, s)
      | Some _ \<Rightarrow>
          if ms_conversations s = [] then (None, s\<lparr>ms_list := Some []\<rparr>)
          else (fst (render_items (ms_currentUser s) (ms_conversations s) []),
                s\<lparr>ms_list :=
                    Some (snd (render_items (ms_currentUser s) (ms_conversations s) []))\<rparr>))"

text \<open>
  \<^verbatim>\<open>displayMessages\<close>: \<^verbatim>\<open>createMessageElement\<close> reads \<^verbatim>\<open>this.currentUser.id\<close> for the
  first message, after the element has been emptied.
\<close>

definition displayMessages :: "message list \<Rightarrow> ms_state \<Rightarrow> js_error option \<times> ms_state" where
  "displayMessages messages s =
     (case ms_chat s of
        None \<Rightarrow> (None, s)
      | Some _ \<Rightarrow>
          if messages \<noteq> [] \<and> ms_currentUser s = None
          then (Some TypeError, s\<lparr>ms_chat := Some []\<rparr>)
          else (None, s\<lparr>ms_chat := Some messages\<rparr>))"

text \<open>
  \<^verbatim>\<open>updateChatHeader\<close>, with the partner that \<^verbatim>\<open>find\<close> gave (\<open>None\<close>: \<^verbatim>\<open>undefined\<close>): the
  avatar and the heading read \<^verbatim>\<open>user.name\<close>.
\<close>

definition updateChatHeader ::
  "participant option \<Rightarrow> string \<Rightarrow> ms_state \<Rightarrow> js_error option \<times> ms_state" where
  "updateChatHeader partner bookTitle s =
     (case ms_header s of
        None \<Rightarrow> (None, s)
      | Some h \<Rightarrow>
          (case partner of
             None \<Rightarrow>
               if h_avatar h \<noteq> None \<or> h_name h \<noteq> None then (Some TypeError, s)
               else (None, s\<lparr>ms_header :=
                       Some (h\<lparr>h_book := map_option (\<lambda>_. bookTitle) (h_book h)\<rparr>)\<rparr>)
           | Some p \<Rightarrow>
               (None, s\<lparr>ms_header :=
                  Some \<lparr>h_avatar = map_option (\<lambda>_. p_name p) (h_avatar h),
                        h_name = map_option (\<lambda>_. p_name p) (h_name h),
                        h_book = map_option (\<lambda>_. bookTitle) (h_book h)\<rparr>\<rparr>)))"

text \<open>
  \<^verbatim>\<open>sendMessage\<close>. It returns at once without a chat input, with a text that is empty
  after trimming, without an active conversation (after an alert; the empty id counts as
  none) and when no conversation has the active id. The new message reads
  \<^verbatim>\<open>this.currentUser.id\<close>. After the store is written the page is drawn again, and the
  input is emptied when that did not throw.
\<close>

definition sendMessage :: "nat \<Rightarrow> ms_state \<Rightarrow> js_error option \<times> ms_state" where
  "sendMessage now s =
     (case ms_chatInput s of
        None \<Rightarrow> (None, s)
      | Some v \<Rightarrow>
          let messageText = trim v in
          if messageText = [] then (None, s)
          else if ms_activeConversationId s = None \<or> ms_activeConversationId s = Some []
          then (None, s\<lparr>ms_alerts := ms_alerts s @ [''Please select a conversation first.'']\<rparr>)
          else
            (case find (\<lambda>c. Some (c_id c) = ms_activeConversationId s) (ms_conversations s) of
               None \<Rightarrow> (None, s)
             | Some c \<Rightarrow>
                 (case ms_currentUser s of
                    None \<Rightarrow> (Some TypeError, s)
                  | Some u \<Rightarrow>
                      let m = newMessage now (u_id u) messageText;
                          s1 = saveConversationsToStorage
                                 (s\<lparr>ms_conversations :=
                                      update_first
                                        (\<lambda>c. Some (c_id c) = ms_activeConversationId s)
                                        (push_message m) (ms_conversations s)\<rparr>)
                      in and_then (and_then (displayMessages (c_messages c @ [m]) s1)
                                     displayConversations)
                           (\<lambda>s2. (None, s2\<lparr>ms_chatInput := Some []\<rparr>)))))"

text \<open>
  \<^verbatim>\<open>markMessagesAsRead\<close>. The callback of \<^verbatim>\<open>forEach\<close> reads \<^verbatim>\<open>this.currentUser.id\<close>, so
  without a current user the first message makes the call throw, before anything changed.
  After the store is written the list of conversations is drawn again.
\<close>

definition mark_read_by :: "string \<Rightarrow> conversation \<Rightarrow> conversation" where
  "mark_read_by uid c =
     c\<lparr>c_messages :=
         map (\<lambda>m. if m_senderId m \<noteq> uid then m\<lparr>m_read := True\<rparr> else m) (c_messages c)\<rparr>"

definition markMessagesAsRead :: "string \<Rightarrow> ms_state \<Rightarrow> js_error option \<times> ms_state" where
  "markMessagesAsRead conversationId s =
     (case find (\<lambda>c. c_id c = conversationId) (ms_conversations s) of
        None \<Rightarrow> (None, s)
      | Some c \<Rightarrow>
          (case ms_currentUser s of
             None \<Rightarrow>
               if c_messages c = [] then displayConversations (saveConversationsToStorage s)
               else (Some TypeError, s)
           | Some u \<Rightarrow>
               displayConversations (saveConversationsToStorage
                 (s\<lparr>ms_conversations :=
                      update_first (\<lambda>c. c_id c = conversationId) (mark_read_by (u_id u))
                        (ms_conversations s)\<rparr>))))"



definition newConversation ::
  "nat \<Rightarrow> user \<Rightarrow> participant \<Rightarrow> string \<Rightarrow> string \<Rightarrow> jstring \<Rightarrow> conversation" where
  "newConversation now u other bookId bookTitle text =
     \<lparr>c_id = dec now,
      c_participants =
        [\<lparr>p_id = u_id u, p_name = u_name u, p_whatsappNumber = None\<rparr>,
         \<lparr>p_id = p_id other, p_name = p_name other,
          p_whatsappNumber =
            Some (case p_whatsappNumber other of None \<Rightarrow> [] | Some w \<Rightarrow> w)\<rparr>],
      c_bookId = bookId,
      c_bookTitle = bookTitle,
      c_messages = [newMessage now (u_id u) text]\<rparr>"

text \<open>\<^verbatim>\<open>createNewConversation\<close> returns the id of the conversation it made.\<close>

definition createNewConversation ::
  "participant \<Rightarrow> book \<Rightarrow> jstring \<Rightarrow> nat \<Rightarrow> ms_state \<Rightarrow> (js_error + string) \<times> ms_state" where
  "createNewConversation otherUser b initialMessage now s =
     (case ms_currentUser s of
        None \<Rightarrow> (Inl TypeError, s)
      | Some u \<Rightarrow>
          (Inr (dec now),
           saveConversationsToStorage
             (s\<lparr>ms_conversations := ms_conversations s @
                  [newConversation now u otherUser (k_id b) (k_title b) initialMessage]\<rparr>)))"





subsection \<open>Messaging a seller from a book page\<close>

text \<open>
  The \<^verbatim>\<open>BookMessaging\<close> object, the same entry of the store, and the address the page was
  sent to.
\<close>

record bm_state =
  bm_currentUser :: "user option"
  bm_stored :: "conversation list option"
  bm_writes :: nat
  bm_location :: "string option"

text \<open>The predicate that \<^verbatim>\<open>createOrUpdateConversation\<close> gives to \<^verbatim>\<open>find\<close>.\<close>

definition same_conversation :: "string \<Rightarrow> string \<Rightarrow> string \<Rightarrow> conversation \<Rightarrow> bool" where
  "same_conversation bookId sellerId uid c =
     (c_bookId c = bookId \<and> list_ex (\<lambda>p. p_id p = sellerId) (c_participants c)
      \<and> list_ex (\<lambda>p. p_id p = uid) (c_participants c))"

text \<open>
  \<^verbatim>\<open>createOrUpdateConversation\<close>. Without a current user it throws before it writes: the
  predicate reads \<^verbatim>\<open>this.currentUser.id\<close> as soon as a conversation has the book and the
  seller, and the new conversation reads it otherwise.
\<close>

definition createOrUpdateConversation ::
  "string \<Rightarrow> string \<Rightarrow> string \<Rightarrow> string \<Rightarrow> jstring \<Rightarrow> nat \<Rightarrow> bm_state \<Rightarrow> js_error + bm_state" where
  "createOrUpdateConversation bookId bookTitle sellerId sellerName messageText now s =
     (case bm_currentUser s of
        None \<Rightarrow> Inl TypeError
      | Some u \<Rightarrow>
          let conversations = (case bm_stored s of None \<Rightarrow> [] | Some l \<Rightarrow> l);
              conversations' =
                (case find (same_conversation bookId sellerId (u_id u)) conversations of
                   Some _ \<Rightarrow>
                     update_first (same_conversation bookId sellerId (u_id u))
                       (push_message (newMessage now (u_id u) messageText)) conversations
                 | None \<Rightarrow>
                     conversations @
                       [newConversation now u
                          \<lparr>p_id = sellerId, p_name = sellerName, p_whatsappNumber = Some []\<rparr>
                          bookId bookTitle messageText])
          in Inr (s\<lparr>bm_stored := Some conversations', bm_writes := Suc (bm_writes s),
                    bm_location := Some ''dashboard.html#messages''\<rparr>))"

text \<open>The conversations about one book between two given users.\<close>

definition conversations_of ::
  "string \<Rightarrow> string \<Rightarrow> string \<Rightarrow> conversation list \<Rightarrow> conversation list" where
  "conversations_of bookId a b cs = filter (same_conversation bookId a b) cs"

section \<open>Example data\<close>

definition alice :: user where
  "alice = \<lparr>u_id = ''u1'', u_name = ''Alice''\<rparr>"

definition notice :: "string \<Rightarrow> nat \<Rightarrow> bool \<Rightarrow> notification" where
  "notice i t r =
     \<lparr>n_id = i, n_type = ''system'', n_message = ''Your account has been verified'',
      n_timestamp = t, n_read = r, n_seen = False, n_data = [], n_link = None\<rparr>"

definition page0 :: ns_state where
  "page0 =
     \<lparr>ns_notifications = [], ns_unreadCount = 0, ns_currentUser = None, ns_stored = None,
      ns_stored_user = Some alice, ns_writes = 0,
      ns_badge = Some \<lparr>b_text = ''0'', b_display = []\<rparr>, ns_list = Some [],
      ns_menu = Some False, ns_toasts = []\<rparr>"

definition five_notes :: "notification list" where
  "five_notes =
     [notice ''n5'' 50 False, notice ''n4'' 40 True, notice ''n3'' 30 False, notice ''n2'' 20 True,
      notice ''n1'' 10 False]"

definition page5 :: ns_state where
  "page5 = page0\<lparr>ns_stored := Some five_notes\<rparr>"

definition request0 :: notification_request where
  "request0 =
     \<lparr>q_type = ''message'', q_message = ''New message from Alice'', q_data = None,
      q_link = None\<rparr>"

definition draw0 :: draw where
  "draw0 = \<lparr>d_gate = 1 / 20, d_type = 9 / 10, d_pick = 1 / 4, d_data = ''k3x'', d_id = ''q7z''\<rparr>"

definition clock_back_state :: ns_state where
  "clock_back_state =
     snd (addNotification 1000 ''b'' request0
       (snd (addNotification 2000 ''a'' request0 (NotificationSystem page0))))"

definition stale_state :: ns_state where
  "stale_state = logout (NotificationSystem page0)"



definition seller_bob :: participant where
  "seller_bob = \<lparr>p_id = ''u2'', p_name = ''Bob'', p_whatsappNumber = None\<rparr>"

definition book42 :: book where
  "book42 = \<lparr>k_id = ''book-42'', k_title = ''Calculus''\<rparr>"

text \<open>The dashboard of a user with every element on the page and nothing stored.\<close>

definition dashboard :: "user \<Rightarrow> ms_state" where
  "dashboard u =
     \<lparr>ms_currentUser = Some u, ms_conversations = [], ms_activeConversationId = None,
      ms_stored = None, ms_writes = 0, ms_chatInput = Some [], ms_alerts = [],
      ms_list = Some [], ms_chat = Some [],
      ms_header = Some \<lparr>h_avatar = Some [], h_name = Some [], h_book = Some []\<rparr>\<rparr>"

text \<open>Alice asks Bob about the book; the conversation gets the id \<open>1000\<close>.\<close>

definition asked :: "conversation list" where
  "asked =
     [newConversation 1000 alice seller_bob ''book-42'' ''Calculus'' (js ''is this available?'')]"

definition dashboard_with :: "user \<Rightarrow> conversation list \<Rightarrow> ms_state" where
  "dashboard_with u cs = (dashboard u)\<lparr>ms_conversations := cs, ms_stored := Some cs\<rparr>"

definition created_twice :: ms_state where
  "created_twice =
     snd (createNewConversation seller_bob book42 (js ''is this available?'') 2000
       (snd (createNewConversation seller_bob book42 (js ''is this available?'') 1000
          (dashboard alice))))"

definition book_page :: bm_state where
  "book_page =
     \<lparr>bm_currentUser = Some alice, bm_stored = None, bm_writes = 0, bm_location = None\<rparr>"

text \<open>
  Three states of Alice's dashboard with the conversation: a text between a space and a
  no-break space, for the conversation; two spaces and a no-break space, for the
  conversation; a text, and the id of no conversation.
\<close>

definition typed :: ms_state where
  "typed = (dashboard_with alice asked)
     \<lparr>ms_activeConversationId := Some ''1000'',
      ms_chatInput := Some (js '' still there?'' @ [0xA0])\<rparr>"

definition blank_input :: ms_state where
  "blank_input = typed\<lparr>ms_chatInput := Some (js ''  '' @ [0xA0])\<rparr>"

definition missing_ref :: ms_state where
  "missing_ref = (dashboard_with alice asked)
     \<lparr>ms_activeConversationId := Some ''9999'', ms_chatInput := Some (js ''hello'')\<rparr>"





text \<open>Six notifications that are not stored newest first; two have the same timestamp.\<close>

definition six_notes :: "notification list" where
  "six_notes =
     [notice ''a'' 30 False, notice ''b'' 50 True, notice ''c'' 10 False, notice ''d'' 50 False,
      notice ''e'' 20 True, notice ''f'' 40 False]"

definition page6 :: ns_state where
  "page6 = page0\<lparr>ns_stored := Some six_notes\<rparr>"

text \<open>
  The notifications page with five stored notifications and its two objects; the timer of
  the second one has ticked and added a notification.
\<close>

definition second_object :: ns_state where
  "second_object = pollingTick 30000 draw0 (NotificationSystem (NotificationSystem page5))"

definition first_object :: ns_state where
  "first_object =
     see second_object
       (see (NotificationSystem (NotificationSystem page5)) (NotificationSystem page5))"

text \<open>A toast that has been shown and removed once, with no timer left and no exception.\<close>

definition toast_gone :: toast_state where
  "toast_gone = \<lparr>t_attached = False, t_hiding = True, t_visible = True, t_removals = 1,
     t_timers = [], t_errors = []\<rparr>"

section \<open>Properties\<close>

subsection \<open>What each step keeps\<close>






text \<open>The list that the object holds is the stored one.\<close>

definition synced :: "ns_state \<Rightarrow> bool" where
  "synced s = (ns_notifications s = stored_list s)"

text \<open>Timestamps that do not grow from the head of the list on: newest first.\<close>

definition newest_first :: "notification list \<Rightarrow> bool" where
  "newest_first ns = sorted (map (\<lambda>n. - int (n_timestamp n)) ns)"


subsection \<open>Fields that the helpers leave alone\<close>

lemma updateNotificationBadge_fields [simp]:
  "ns_notifications (updateNotificationBadge s) = ns_notifications s"
  "ns_stored (updateNotificationBadge s) = ns_stored s"
  "ns_writes (updateNotificationBadge s) = ns_writes s"
  "ns_currentUser (updateNotificationBadge s) = ns_currentUser s"
  "ns_stored_user (updateNotificationBadge s) = ns_stored_user s"
  "ns_toasts (updateNotificationBadge s) = ns_toasts s"
  "ns_list (updateNotificationBadge s) = ns_list s"
  "ns_menu (updateNotificationBadge s) = ns_menu s"
  by (simp_all add: updateNotificationBadge_def Let_def split: option.splits)

lemma renderNotifications_fields [simp]:
  "ns_notifications (renderNotifications s) = ns_notifications s"
  "ns_stored (renderNotifications s) = ns_stored s"
  "ns_writes (renderNotifications s) = ns_writes s"
  "ns_currentUser (renderNotifications s) = ns_currentUser s"
  "ns_stored_user (renderNotifications s) = ns_stored_user s"
  "ns_toasts (renderNotifications s) = ns_toasts s"
  "ns_badge (renderNotifications s) = ns_badge s"
  "ns_unreadCount (renderNotifications s) = ns_unreadCount s"
  "ns_menu (renderNotifications s) = ns_menu s"
  by (simp_all add: renderNotifications_def split: option.splits)

lemma saveNotificationsToStorage_fields [simp]:
  "ns_notifications (saveNotificationsToStorage s) = ns_notifications s"
  "ns_stored (saveNotificationsToStorage s) = Some (ns_notifications s)"
  "ns_writes (saveNotificationsToStorage s) = Suc (ns_writes s)"
  "ns_currentUser (saveNotificationsToStorage s) = ns_currentUser s"
  "ns_stored_user (saveNotificationsToStorage s) = ns_stored_user s"
  "ns_toasts (saveNotificationsToStorage s) = ns_toasts s"
  "ns_badge (saveNotificationsToStorage s) = ns_badge s"
  "ns_list (saveNotificationsToStorage s) = ns_list s"
  "ns_menu (saveNotificationsToStorage s) = ns_menu s"
  "ns_unreadCount (saveNotificationsToStorage s) = ns_unreadCount s"
  by (simp_all add: saveNotificationsToStorage_def)

lemma showToastNotification_fields [simp]:
  "ns_notifications (showToastNotification n s) = ns_notifications s"
  "ns_stored (showToastNotification n s) = ns_stored s"
  "ns_writes (showToastNotification n s) = ns_writes s"
  "ns_currentUser (showToastNotification n s) = ns_currentUser s"
  "ns_stored_user (showToastNotification n s) = ns_stored_user s"
  "ns_list (showToastNotification n s) = ns_list s"
  "ns_toasts (showToastNotification n s) = ns_toasts s @ [n]"
  by (simp_all add: showToastNotification_def)

lemma NotificationSystem_fields [simp]:
  "ns_notifications (NotificationSystem p) = stored_list p"
  "ns_stored (NotificationSystem p) = ns_stored p"
  "ns_writes (NotificationSystem p) = ns_writes p"
  "ns_currentUser (NotificationSystem p) = ns_stored_user p"
  "ns_stored_user (NotificationSystem p) = ns_stored_user p"
  "ns_toasts (NotificationSystem p) = ns_toasts p"
  "ns_list (NotificationSystem p) = ns_list p"
  by (simp_all add: NotificationSystem_def Let_def stored_list_def getCurrentUser_def
      loadNotificationsFromStorage_def)

lemma see_fields [simp]:
  "ns_notifications (see p x) = ns_notifications x"
  "ns_currentUser (see p x) = ns_currentUser x"
  "ns_stored (see p x) = ns_stored p"
  "ns_stored_user (see p x) = ns_stored_user p"
  "ns_writes (see p x) = ns_writes p"
  by (simp_all add: see_def)

lemma stored_list_NotificationSystem [simp]:
  "stored_list (NotificationSystem p) = stored_list p"
  by (simp add: stored_list_def)

lemma synced_new: "synced (NotificationSystem p)"
  by (simp add: synced_def stored_list_def)

lemma synced_add: "synced s \<Longrightarrow> synced (snd (addNotification now suffix q s))"
  by (simp add: synced_def addNotification_def Let_def stored_list_def split: option.splits)

lemma synced_all_read: "synced s \<Longrightarrow> synced (markAllAsRead s)"
  by (simp add: synced_def markAllAsRead_def stored_list_def)

lemma synced_seen: "synced s \<Longrightarrow> synced (markNotificationsAsSeen s)"
  by (simp add: synced_def markNotificationsAsSeen_def stored_list_def)

lemma synced_toggle: "synced s \<Longrightarrow> synced (toggleNotificationDropdown s)"
  by (auto simp add: synced_def toggleNotificationDropdown_def markNotificationsAsSeen_def
      stored_list_def Let_def split: option.splits)

lemma synced_read: "synced s \<Longrightarrow> synced (markAsRead nid s)"
  by (simp add: synced_def markAsRead_def stored_list_def split: option.splits)

lemma synced_tick: "synced s \<Longrightarrow> synced (pollingTick now d s)"
  by (simp add: pollingTick_def simulateNewNotification_def synced_add split: option.splits)

lemma synced_logout: "synced s \<Longrightarrow> synced (logout s)"
  by (simp add: synced_def logout_def stored_list_def)

lemma step_synced: "step s s' \<Longrightarrow> synced s \<Longrightarrow> synced s'"
  by (induction rule: step.induct)
     (simp_all add: synced_add synced_all_read synced_seen synced_toggle synced_read
        synced_tick synced_logout)

lemma reachable_alone_synced: "reachable_alone s \<Longrightarrow> synced s"
  by (induction rule: reachable_alone.induct) (simp_all add: synced_new step_synced)

subsection \<open>The unread count\<close>

text \<open>
  Claim C5, as amended. In every state \<open>getUnreadCount\<close> is the number of notifications in
  the list of the object that are not read, with no cap, and after \<open>markAllAsRead\<close> it is 0.
  In every state that an object reaches while it is the only one to work on the store,
  this is also the number of stored notifications that are not read.
\<close>

theorem unread_count_exact:
  "getUnreadCount s = length (filter (\<lambda>n. \<not> n_read n) (ns_notifications s))
   \<and> getUnreadCount (markAllAsRead s) = 0
   \<and> (reachable_alone s \<longrightarrow>
        getUnreadCount s = length (filter (\<lambda>n. \<not> n_read n) (stored_list s)))"
proof (intro conjI impI)
  show "getUnreadCount s = length (filter (\<lambda>n. \<not> n_read n) (ns_notifications s))"
    by (simp add: getUnreadCount_def)
  show "getUnreadCount (markAllAsRead s) = 0"
    by (simp add: getUnreadCount_def markAllAsRead_def)
  assume "reachable_alone s"
  then have "ns_notifications s = stored_list s"
    using reachable_alone_synced synced_def by blast
  then show "getUnreadCount s = length (filter (\<lambda>n. \<not> n_read n) (stored_list s))"
    by (simp add: getUnreadCount_def)
qed

theorem unread_count_exact_witness:
  "reachable_alone (markAsRead ''n3'' (NotificationSystem page5))
   \<and> getUnreadCount (markAsRead ''n3'' (NotificationSystem page5)) = 2
   \<and> length (filter (\<lambda>n. \<not> n_read n) (stored_list (markAsRead ''n3'' (NotificationSystem page5))))
       = 2
   \<and> getUnreadCount (markAllAsRead (markAsRead ''n3'' (NotificationSystem page5))) = 0"
proof -
  have r: "reachable_alone (markAsRead ''n3'' (NotificationSystem page5))"
    by (rule reachable_alone.ra_step [OF reachable_alone.ra_new [of page5] step.s_read])
  have "stored_list page5 = five_notes"
    by (simp add: stored_list_def page5_def page0_def)
  then have "length (filter (\<lambda>n. \<not> n_read n)
      (stored_list (markAsRead ''n3'' (NotificationSystem page5)))) = 2"
    by (simp add: stored_list_def markAsRead_def five_notes_def notice_def)
  with r unread_count_exact [of "markAsRead ''n3'' (NotificationSystem page5)"] show ?thesis
    by simp
qed

text \<open>
  The claim as stated speaks of every reachable state. On the notifications page the
  second object adds a notification at a tick of its timer: the store then holds four
  notifications that are not read, and the first object still counts three.
\<close>

theorem unread_count_second_object:
  "reachable_pair first_object second_object
   \<and> getUnreadCount first_object = 3
   \<and> length (filter (\<lambda>n. \<not> n_read n) (stored_list first_object)) = 4"
proof -
  have "reachable_pair
      (see second_object
         (see (NotificationSystem (NotificationSystem page5)) (NotificationSystem page5)))
      second_object"
    unfolding second_object_def
    by (rule reachable_pair.rp_second [OF reachable_pair.rp_new [of page5] step.s_tick])
  then have r: "reachable_pair first_object second_object"
    by (simp add: first_object_def)
  have f: "stored_list page5 = five_notes"
    by (simp add: stored_list_def page5_def page0_def)
  have n: "ns_notifications first_object = five_notes"
    by (simp add: first_object_def f)
  have u: "ns_currentUser (NotificationSystem (NotificationSystem page5)) = Some alice"
    by (simp add: page5_def page0_def)
  have g: "d_gate draw0 < 1 / 10"
    by (simp add: draw0_def)
  have "ns_stored second_object
      = Some (newNotification 30000 ''q7z'' (simulated_request draw0) # five_notes)"
    using u g
    by (simp add: second_object_def pollingTick_def simulateNewNotification_def
        addNotification_def Let_def draw0_def f)
  then have s: "stored_list first_object
      = newNotification 30000 ''q7z'' (simulated_request draw0) # five_notes"
    by (simp add: first_object_def stored_list_def)
  show ?thesis
    using r by (simp add: getUnreadCount_def n s) (simp add: five_notes_def notice_def newNotification_def)
qed

subsection \<open>Seeing is not reading\<close>

text \<open>
  Claim C7. \<open>markNotificationsAsSeen\<close> sets \<open>seen\<close> on every notification and changes no
  other field of any of them; the flags \<open>read\<close> and the unread count stay as they were. With
  three unread and two read notifications all five are seen afterwards and three are
  unread.
\<close>

theorem markNotificationsAsSeen_frame:
  "ns_notifications (markNotificationsAsSeen s)
     = map (\<lambda>n. n\<lparr>n_seen := True\<rparr>) (ns_notifications s)
   \<and> list_all n_seen (ns_notifications (markNotificationsAsSeen s))
   \<and> map n_read (ns_notifications (markNotificationsAsSeen s)) = map n_read (ns_notifications s)
   \<and> getUnreadCount (markNotificationsAsSeen s) = getUnreadCount s"
  by (simp add: markNotificationsAsSeen_def getUnreadCount_def list_all_iff comp_def filter_map)

theorem markNotificationsAsSeen_frame_witness:
  "getUnreadCount (NotificationSystem page5) = 3
   \<and> length (ns_notifications (markNotificationsAsSeen (NotificationSystem page5))) = 5
   \<and> list_all n_seen (ns_notifications (markNotificationsAsSeen (NotificationSystem page5)))
   \<and> getUnreadCount (markNotificationsAsSeen (NotificationSystem page5)) = 3"
  using markNotificationsAsSeen_frame [of "NotificationSystem page5"]
  by (simp add: getUnreadCount_def stored_list_def page5_def page0_def five_notes_def notice_def)

subsection \<open>Marking one notification as read\<close>

lemma find_None_mark_first: "find (\<lambda>n. n_id n = nid) ns = None \<Longrightarrow> mark_first nid ns = ns"
  by (induction ns) (auto split: if_splits)

lemma mark_first_at:
  "i < length ns \<Longrightarrow> n_id (ns ! i) = nid \<Longrightarrow> \<forall>j<i. n_id (ns ! j) \<noteq> nid \<Longrightarrow>
   mark_first nid ns = ns[i := (ns ! i)\<lparr>n_read := True\<rparr>]"
proof (induction ns arbitrary: i)
  case Nil
  then show ?case by simp
next
  case (Cons a ns)
  show ?case
  proof (cases i)
    case 0
    with Cons.prems show ?thesis by simp
  next
    case (Suc k)
    with Cons.prems have "n_id a \<noteq> nid" by auto
    moreover have "mark_first nid ns = ns[k := (ns ! k)\<lparr>n_read := True\<rparr>]"
      using Cons.prems Suc by (intro Cons.IH) auto
    ultimately show ?thesis using Suc by simp
  qed
qed

lemma find_Some_iff_id: "(find (\<lambda>n. n_id n = nid) ns \<noteq> None) = (nid \<in> n_id ` set ns)"
  by (induction ns) auto

text \<open>
  Claim C10. \<open>markAsRead\<close> with an id that no notification has changes nothing: the list,
  the store, the number of writes and the unread count are those of the state before, and
  the model has no error to raise. With an id that some notification has, the list changes
  at the first such notification only, and only in its flag \<open>read\<close>; the list is then stored.
\<close>

theorem markAsRead_unknown_id:
  "(nid \<notin> n_id ` set (ns_notifications s) \<longrightarrow>
      markAsRead nid s = s)
   \<and> (\<forall>i. i < length (ns_notifications s) \<and> n_id (ns_notifications s ! i) = nid
          \<and> (\<forall>j<i. n_id (ns_notifications s ! j) \<noteq> nid) \<longrightarrow>
        ns_notifications (markAsRead nid s)
          = (ns_notifications s)[i := (ns_notifications s ! i)\<lparr>n_read := True\<rparr>]
        \<and> ns_stored (markAsRead nid s) = Some (ns_notifications (markAsRead nid s)))"
proof (intro conjI impI allI)
  assume "nid \<notin> n_id ` set (ns_notifications s)"
  then have "find (\<lambda>n. n_id n = nid) (ns_notifications s) = None"
    using find_Some_iff_id [of nid "ns_notifications s"] by blast
  then show "markAsRead nid s = s"
    by (simp add: markAsRead_def)
next
  fix i
  assume h: "i < length (ns_notifications s) \<and> n_id (ns_notifications s ! i) = nid
          \<and> (\<forall>j<i. n_id (ns_notifications s ! j) \<noteq> nid)"
  then have "nid \<in> n_id ` set (ns_notifications s)"
    by (metis imageI nth_mem)
  then have f: "find (\<lambda>n. n_id n = nid) (ns_notifications s) \<noteq> None"
    using find_Some_iff_id [of nid "ns_notifications s"] by blast
  then have n: "ns_notifications (markAsRead nid s) = mark_first nid (ns_notifications s)"
    by (auto simp: markAsRead_def)
  with h show "ns_notifications (markAsRead nid s)
          = (ns_notifications s)[i := (ns_notifications s ! i)\<lparr>n_read := True\<rparr>]"
    by (simp add: mark_first_at)
  from f show "ns_stored (markAsRead nid s) = Some (ns_notifications (markAsRead nid s))"
    by (auto simp: markAsRead_def)
qed

theorem markAsRead_unknown_id_witness:
  "markAsRead ''n9'' (NotificationSystem page5) = NotificationSystem page5
   \<and> getUnreadCount (markAsRead ''n9'' (NotificationSystem page5)) = 3
   \<and> ns_notifications (markAsRead ''n3'' (NotificationSystem page5))
       = [notice ''n5'' 50 False, notice ''n4'' 40 True, notice ''n3'' 30 True,
          notice ''n2'' 20 True, notice ''n1'' 10 False]
   \<and> getUnreadCount (markAsRead ''n3'' (NotificationSystem page5)) = 2"
proof -
  have a: "ns_notifications (NotificationSystem page5) = five_notes"
    by (simp add: stored_list_def page5_def page0_def)
  have "''n9'' \<notin> n_id ` set (ns_notifications (NotificationSystem page5))"
    unfolding a by (simp add: five_notes_def notice_def)
  moreover have "(2::nat) < length (ns_notifications (NotificationSystem page5))
      \<and> n_id (ns_notifications (NotificationSystem page5) ! 2) = ''n3''
      \<and> (\<forall>j<2. n_id (ns_notifications (NotificationSystem page5) ! j) \<noteq> ''n3'')"
    unfolding a by (simp add: five_notes_def notice_def less_Suc_eq numeral_2_eq_2)
  ultimately have 1: "markAsRead ''n9'' (NotificationSystem page5) = NotificationSystem page5"
    and 2: "ns_notifications (markAsRead ''n3'' (NotificationSystem page5))
       = (ns_notifications (NotificationSystem page5))
           [2 := (ns_notifications (NotificationSystem page5) ! 2)\<lparr>n_read := True\<rparr>]"
    using markAsRead_unknown_id [of "''n9''" "NotificationSystem page5"]
      markAsRead_unknown_id [of "''n3''" "NotificationSystem page5"] by blast+
  have 3: "ns_notifications (markAsRead ''n3'' (NotificationSystem page5))
       = [notice ''n5'' 50 False, notice ''n4'' 40 True, notice ''n3'' 30 True,
          notice ''n2'' 20 True, notice ''n1'' 10 False]"
    unfolding 2 a by (simp add: five_notes_def notice_def)
  have sl: "stored_list page5 = five_notes"
    by (simp add: stored_list_def page5_def page0_def)
  show ?thesis
    unfolding 1 using 3 by (simp add: getUnreadCount_def sl five_notes_def notice_def)
qed

subsection \<open>Adding a notification\<close>

text \<open>
  Claim C4, as amended. When no user is logged in and the object holds none,
  \<open>addNotification\<close> returns \<open>false\<close> and changes nothing. When the object holds the user
  who is logged in, it returns \<open>true\<close> (not the notification), after it has put one new
  notification, unread and unseen, at the head of the list, stored the list and shown the
  notification as a toast.
\<close>

theorem addNotification_gating:
  "(ns_stored_user s = None \<and> ns_currentUser s = None \<longrightarrow>
      addNotification now suffix q s = (JBool False, s))
   \<and> (ns_stored_user s \<noteq> None \<and> ns_currentUser s = ns_stored_user s \<longrightarrow>
        fst (addNotification now suffix q s) = JBool True
        \<and> ns_notifications (snd (addNotification now suffix q s))
            = newNotification now suffix q # ns_notifications s
        \<and> \<not> n_read (newNotification now suffix q) \<and> \<not> n_seen (newNotification now suffix q)
        \<and> ns_stored (snd (addNotification now suffix q s))
            = Some (newNotification now suffix q # ns_notifications s)
        \<and> ns_writes (snd (addNotification now suffix q s)) = Suc (ns_writes s)
        \<and> ns_toasts (snd (addNotification now suffix q s))
            = ns_toasts s @ [newNotification now suffix q])"
  by (auto simp: addNotification_def Let_def newNotification_def)

theorem addNotification_gating_witness:
  "addNotification 1000 ''q7z'' request0 (NotificationSystem (logout page0))
     = (JBool False, NotificationSystem (logout page0))
   \<and> fst (addNotification 1000 ''q7z'' request0 (NotificationSystem page0)) = JBool True
   \<and> ns_notifications (snd (addNotification 1000 ''q7z'' request0 (NotificationSystem page0)))
       = [newNotification 1000 ''q7z'' request0]
   \<and> ns_stored (snd (addNotification 1000 ''q7z'' request0 (NotificationSystem page0)))
       = Some [newNotification 1000 ''q7z'' request0]"
proof -
  have "ns_stored_user (NotificationSystem (logout page0)) = None
      \<and> ns_currentUser (NotificationSystem (logout page0)) = None"
    by (simp add: page0_def logout_def)
  moreover have "ns_stored_user (NotificationSystem page0) \<noteq> None
      \<and> ns_currentUser (NotificationSystem page0) = ns_stored_user (NotificationSystem page0)"
    by (simp add: page0_def)
  moreover have "ns_notifications (NotificationSystem page0) = []"
    by (simp add: page0_def stored_list_def)
  ultimately show ?thesis
    using addNotification_gating [of "NotificationSystem (logout page0)" 1000 "''q7z''" request0]
      addNotification_gating [of "NotificationSystem page0" 1000 "''q7z''" request0]
    by simp
qed

text \<open>
  The claim as stated has \<open>addNotification\<close> return the new notification. It returns \<open>true\<close>.
\<close>

theorem addNotification_returns_boolean:
  "fst (addNotification 1000 ''q7z'' request0 (NotificationSystem page0))
     \<noteq> JNotification (newNotification 1000 ''q7z'' request0)
   \<and> fst (addNotification 1000 ''q7z'' request0 (NotificationSystem page0)) = JBool True"
  by (simp add: addNotification_def Let_def page0_def)

subsection \<open>The order of the views\<close>

lemma sortedNotifications_newest_first: "newest_first ns \<Longrightarrow> sortedNotifications ns = ns"
  unfolding newest_first_def sortedNotifications_def by (rule sort_key_id_if_sorted)

lemma newest_first_sortedNotifications: "newest_first (sortedNotifications ns)"
  by (simp add: newest_first_def sortedNotifications_def)

lemma sortedNotifications_stable:
  "filter (\<lambda>n. n_timestamp n = t) (sortedNotifications ns) = filter (\<lambda>n. n_timestamp n = t) ns"
proof -
  have "filter (\<lambda>n. - int (n_timestamp n) = - int t) (sort_key (\<lambda>n. - int (n_timestamp n)) ns)
      = filter (\<lambda>n. - int (n_timestamp n) = - int t) ns"
    by (rule sort_key_stable)
  then show ?thesis
    by (simp add: sortedNotifications_def)
qed

lemma newest_first_Cons:
  "newest_first ns \<Longrightarrow> \<forall>n\<in>set ns. n_timestamp n \<le> n_timestamp a \<Longrightarrow> newest_first (a # ns)"
  by (auto simp: newest_first_def)

lemma addNotification_newest_first:
  assumes "newest_first (ns_notifications s)"
    and "\<forall>n\<in>set (ns_notifications s). n_timestamp n \<le> now"
  shows "newest_first (ns_notifications (snd (addNotification now suffix q s)))"
  using assms
  by (auto simp: addNotification_def Let_def newNotification_def newest_first_def
      split: option.splits)

text \<open>
  Claim C8, as amended. Both views show the notifications ordered by timestamp, newest
  first, and those of one timestamp in the order of the list: the notifications page all of
  them, the dropdown the first five. A view is in the order of the list exactly when the
  timestamps of the list do not grow from its head on (what \<open>addNotification\<close> keeps as long
  as the clock does not go back); then the dropdown shows the first five notifications of
  the list.
\<close>

theorem views_follow_stored_order:
  "newest_first (generateNotificationsPage s)
   \<and> mset (generateNotificationsPage s) = mset (ns_notifications s)
   \<and> (\<forall>t. filter (\<lambda>n. n_timestamp n = t) (generateNotificationsPage s)
          = filter (\<lambda>n. n_timestamp n = t) (ns_notifications s))
   \<and> recentNotifications (ns_notifications s) = take 5 (generateNotificationsPage s)
   \<and> (ns_list s \<noteq> None \<longrightarrow>
        ns_list (renderNotifications s) = Some (take 5 (generateNotificationsPage s)))
   \<and> (generateNotificationsPage s = ns_notifications s) = newest_first (ns_notifications s)
   \<and> (newest_first (ns_notifications s) \<longrightarrow>
        recentNotifications (ns_notifications s) = take 5 (ns_notifications s))"
proof -
  have g: "generateNotificationsPage s = sortedNotifications (ns_notifications s)"
    by (simp add: generateNotificationsPage_def sortedNotifications_def)
  have "(sortedNotifications (ns_notifications s) = ns_notifications s)
      = newest_first (ns_notifications s)"
    using newest_first_sortedNotifications [of "ns_notifications s"]
      sortedNotifications_newest_first [of "ns_notifications s"] by auto
  moreover have "mset (sortedNotifications (ns_notifications s)) = mset (ns_notifications s)"
    by (simp add: sortedNotifications_def)
  moreover have "ns_list s \<noteq> None \<Longrightarrow>
      ns_list (renderNotifications s) = Some (take 5 (sortedNotifications (ns_notifications s)))"
    by (auto simp: renderNotifications_def recentNotifications_def sortedNotifications_def)
  ultimately show ?thesis
    unfolding g
    by (simp add: newest_first_sortedNotifications sortedNotifications_stable
        recentNotifications_def sortedNotifications_newest_first)
qed

lemma six_notes_sorted:
  "sortedNotifications six_notes
     = [notice ''b'' 50 True, notice ''d'' 50 False, notice ''f'' 40 False, notice ''a'' 30 False,
        notice ''e'' 20 True, notice ''c'' 10 False]"
  by (simp add: sortedNotifications_def six_notes_def notice_def)

theorem views_follow_stored_order_witness:
  "generateNotificationsPage (NotificationSystem page6)
     = [notice ''b'' 50 True, notice ''d'' 50 False, notice ''f'' 40 False, notice ''a'' 30 False,
        notice ''e'' 20 True, notice ''c'' 10 False]
   \<and> ns_list (renderNotifications (NotificationSystem page6))
     = Some [notice ''b'' 50 True, notice ''d'' 50 False, notice ''f'' 40 False,
             notice ''a'' 30 False, notice ''e'' 20 True]
   \<and> \<not> newest_first (ns_notifications (NotificationSystem page6))
   \<and> newest_first (ns_notifications (NotificationSystem page5))
   \<and> recentNotifications (ns_notifications (NotificationSystem page5)) = five_notes"
proof -
  have a: "stored_list page6 = six_notes" "stored_list page5 = five_notes"
    by (simp_all add: stored_list_def page6_def page5_def page0_def)
  have g: "generateNotificationsPage (NotificationSystem page6) = sortedNotifications six_notes"
    by (simp add: generateNotificationsPage_def a six_notes_def sortedNotifications_def)
  have l: "ns_list (NotificationSystem page6) \<noteq> None"
    by (simp add: page6_def page0_def)
  have n6: "\<not> newest_first (ns_notifications (NotificationSystem page6))"
    by (simp add: a) (simp add: newest_first_def six_notes_def notice_def)
  have n5: "newest_first (ns_notifications (NotificationSystem page5))"
    by (simp add: a) (simp add: newest_first_def five_notes_def notice_def)
  have t: "take 5 five_notes = five_notes"
    by (simp add: five_notes_def)
  show ?thesis
    using views_follow_stored_order [of "NotificationSystem page6"]
      views_follow_stored_order [of "NotificationSystem page5"] l n6 n5
    by (simp add: g six_notes_sorted a t)
qed

text \<open>
  The claim as stated speaks of every stored list. Two notifications added while the clock
  went back from 2000 to 1000 are stored with the one added last at the head; both views
  sort by timestamp and show them the other way round.
\<close>

theorem views_resorted_counterexample:
  "stored_list clock_back_state
     = [newNotification 1000 ''b'' request0, newNotification 2000 ''a'' request0]
   \<and> recentNotifications (stored_list clock_back_state)
     = [newNotification 2000 ''a'' request0, newNotification 1000 ''b'' request0]
   \<and> ns_list clock_back_state \<noteq> Some (take 5 (stored_list clock_back_state))
   \<and> generateNotificationsPage clock_back_state \<noteq> stored_list clock_back_state"
proof -
  have s: "stored_list clock_back_state
     = [newNotification 1000 ''b'' request0, newNotification 2000 ''a'' request0]"
    by (simp add: clock_back_state_def addNotification_def Let_def stored_list_def page0_def)
  have n: "ns_notifications clock_back_state
     = [newNotification 1000 ''b'' request0, newNotification 2000 ''a'' request0]"
    by (simp add: clock_back_state_def addNotification_def Let_def stored_list_def page0_def)
  have r: "sortedNotifications [newNotification 1000 ''b'' request0, newNotification 2000 ''a'' request0]
     = [newNotification 2000 ''a'' request0, newNotification 1000 ''b'' request0]"
    by (simp add: sortedNotifications_def newNotification_def)
  have d: "newNotification 2000 ''a'' request0 \<noteq> newNotification 1000 ''b'' request0"
    by (simp add: newNotification_def)
  have l: "ns_list clock_back_state = Some (recentNotifications (ns_notifications clock_back_state))"
    by (simp add: clock_back_state_def addNotification_def Let_def page0_def
        renderNotifications_def showToastNotification_def)
  show ?thesis
    using d by (simp add: s n r l recentNotifications_def generateNotificationsPage_def)
qed

subsection \<open>A tick of the simulated event source\<close>

lemma pollingTick_no_user: "ns_currentUser s = None \<Longrightarrow> pollingTick now d s = s"
  by (simp add: pollingTick_def)

text \<open>
  Claim C2 at the state that a logout leaves: the entry of the current user is gone from
  the store, the object still holds the user it read when it was constructed. A tick
  that draws 0.05 adds a notification and writes the store.
\<close>

theorem tick_after_logout_creates:
  "ns_stored_user stale_state = None
   \<and> ns_notifications stale_state = []
   \<and> ns_stored stale_state = None
   \<and> ns_notifications (pollingTick 30000 draw0 stale_state)
       = [newNotification 30000 ''q7z'' (simulated_request draw0)]
   \<and> ns_stored (pollingTick 30000 draw0 stale_state)
       = Some [newNotification 30000 ''q7z'' (simulated_request draw0)]
   \<and> ns_writes (pollingTick 30000 draw0 stale_state) = Suc (ns_writes stale_state)
   \<and> q_message (simulated_request draw0) = ''Your account has been verified''"
proof -
  have u: "ns_currentUser stale_state = Some alice"
    by (simp add: stale_state_def logout_def page0_def)
  have g: "d_gate draw0 < 1 / 10"
    by (simp add: draw0_def)
  have t: "pollingTick 30000 draw0 stale_state
     = snd (addNotification 30000 ''q7z'' (simulated_request draw0) stale_state)"
    using u g by (simp add: pollingTick_def simulateNewNotification_def draw0_def)
  have m: "q_message (simulated_request draw0) = ''Your account has been verified''"
    by (simp add: simulated_request_def draw0_def pick_def notificationTypes_def Let_def)
  show ?thesis
    unfolding t using u
    by (simp add: m addNotification_def Let_def)
       (simp add: stale_state_def logout_def page0_def stored_list_def)
qed

subsection \<open>The removal of a toast\<close>

text \<open>
  With no click, and with one click on the close button before the timeout, the toast is
  detached once and no callback throws.
\<close>

lemmas toast_defs = toast_created_def setTimeout_def fire_def run_callback_def
      removeChild_def is_due_def on_click_def Let_def

lemma timeout_only: "run [] (toast_created T) = toast_gone"
  by (simp add: advance.simps toast_defs toast_gone_def)

lemma close_before_timeout:
  assumes "d < 5000"
  shows "run [(T + d, CloseClick)] (toast_created T) = toast_gone"
proof (cases "10 \<le> d")
  case True
  show ?thesis
  proof (cases "d < 4700")
    case True
    with \<open>10 \<le> d\<close> assms show ?thesis
      by (simp add: advance.simps toast_defs toast_gone_def)
  next
    case False
    with \<open>10 \<le> d\<close> assms show ?thesis
      by (simp add: advance.simps toast_defs toast_gone_def)
  qed
next
  case False
  with assms show ?thesis
    by (simp add: advance.simps toast_defs toast_gone_def)
qed

text \<open>
  Claim C3 where the timeout comes first: the toast is created at 0, the timeout hides it
  at 5000, the close button is clicked at 5100. The callback of the timeout detaches the
  toast at 5300; the callback of the click calls \<open>removeChild\<close> at 5400 without asking
  whether the toast is still in the container, and throws.
\<close>

theorem close_after_timeout_throws:
  "run [(5100, CloseClick)] (toast_created 0)
     = \<lparr>t_attached = False, t_hiding = True, t_visible = True, t_removals = 1, t_timers = [],
        t_errors = [NotFoundError]\<rparr>"
  by (simp add: advance.simps toast_defs)

text \<open>Two clicks on the close button, at 100 and at 200, end the same way.\<close>

lemma close_twice_throws:
  "run [(100, CloseClick), (200, CloseClick)] (toast_created 0)
     = \<lparr>t_attached = False, t_hiding = True, t_visible = True, t_removals = 1, t_timers = [],
        t_errors = [NotFoundError]\<rparr>"
  by (simp add: advance.simps toast_defs)

subsection \<open>One conversation for a book and two users\<close>

lemma dec_1000: "dec 1000 = ''1000''" and dec_2000: "dec 2000 = ''2000''"
  by (simp_all add: dec.simps digit_char_def)

lemma find_None_filter: "find P xs = None \<Longrightarrow> filter P xs = []"
  by (induction xs) (auto split: if_splits)

lemma filter_update_first:
  "(\<And>x. Q (f x) = Q x) \<Longrightarrow> length (filter Q (update_first P f xs)) = length (filter Q xs)"
  by (induction xs) auto

lemma map_update_first: "(\<And>x. g (f x) = g x) \<Longrightarrow> map g (update_first P f xs) = map g xs"
  by (induction xs) auto

lemma same_conversation_push [simp]:
  "same_conversation b x y (push_message m c) = same_conversation b x y c"
  by (simp add: same_conversation_def push_message_def)

text \<open>
  \<open>createOrUpdateConversation\<close> looks for the conversation first: after the call the store
  holds one conversation for the book, the seller and the user if it held none, and as
  many as before otherwise; a second call makes no conversation.
\<close>

lemma createOrUpdateConversation_count:
  assumes "bm_currentUser s = Some u"
    and "createOrUpdateConversation b t seller sn text now s = Inr s'"
  shows "length (conversations_of b seller (u_id u) (case bm_stored s' of None \<Rightarrow> [] | Some l \<Rightarrow> l))
       = max 1 (length (conversations_of b seller (u_id u)
                  (case bm_stored s of None \<Rightarrow> [] | Some l \<Rightarrow> l)))"
proof (cases "find (same_conversation b seller (u_id u))
                (case bm_stored s of None \<Rightarrow> [] | Some l \<Rightarrow> l)")
  case None
  then have "filter (same_conversation b seller (u_id u))
      (case bm_stored s of None \<Rightarrow> [] | Some l \<Rightarrow> l) = []"
    by (rule find_None_filter)
  with None assms show ?thesis
    by (auto simp: createOrUpdateConversation_def Let_def conversations_of_def
        same_conversation_def newConversation_def)
next
  case (Some c)
  then have "filter (same_conversation b seller (u_id u))
      (case bm_stored s of None \<Rightarrow> [] | Some l \<Rightarrow> l) \<noteq> []"
    by (metis filter_empty_conv find_Some_iff nth_mem)
  then have "1 \<le> length (filter (same_conversation b seller (u_id u))
      (case bm_stored s of None \<Rightarrow> [] | Some l \<Rightarrow> l))"
    by (simp add: Suc_le_eq)
  with Some assms show ?thesis
    by (auto simp: createOrUpdateConversation_def Let_def conversations_of_def
        filter_update_first)
qed

lemma createOrUpdateConversation_reuses:
  assumes "bm_currentUser s = Some u"
    and "createOrUpdateConversation b t seller sn text now s = Inr s1"
    and "createOrUpdateConversation b t seller sn text' now' s1 = Inr s2"
  shows "map c_id (case bm_stored s2 of None \<Rightarrow> [] | Some l \<Rightarrow> l)
       = map c_id (case bm_stored s1 of None \<Rightarrow> [] | Some l \<Rightarrow> l)"
proof -
  have u1: "bm_currentUser s1 = Some u"
    using assms(1,2) by (auto simp: createOrUpdateConversation_def Let_def)
  have one: "length (conversations_of b seller (u_id u)
      (case bm_stored s1 of None \<Rightarrow> [] | Some l \<Rightarrow> l)) \<ge> 1"
    using createOrUpdateConversation_count [OF assms(1,2)] by simp
  have "find (same_conversation b seller (u_id u))
      (case bm_stored s1 of None \<Rightarrow> [] | Some l \<Rightarrow> l) \<noteq> None"
  proof
    assume "find (same_conversation b seller (u_id u))
      (case bm_stored s1 of None \<Rightarrow> [] | Some l \<Rightarrow> l) = None"
    then have "filter (same_conversation b seller (u_id u))
      (case bm_stored s1 of None \<Rightarrow> [] | Some l \<Rightarrow> l) = []"
      by (rule find_None_filter)
    with one show False
      by (simp add: conversations_of_def)
  qed
  with u1 assms(3) show ?thesis
    by (auto simp: createOrUpdateConversation_def Let_def map_update_first push_message_def)
qed

text \<open>Alice writes to Bob about the book twice, from the book page: one conversation.\<close>

lemma createOrUpdateConversation_twice:
  "(case createOrUpdateConversation ''book-42'' ''Calculus'' ''u2'' ''Bob''
           (js ''is this available?'') 1000 book_page of
      Inl e \<Rightarrow> False
    | Inr s1 \<Rightarrow>
        (case createOrUpdateConversation ''book-42'' ''Calculus'' ''u2'' ''Bob''
                (js ''still there?'') 2000 s1 of
           Inl e \<Rightarrow> False
         | Inr s2 \<Rightarrow>
             map_option (map c_id) (bm_stored s1) = Some [''1000'']
             \<and> map_option (map c_id) (bm_stored s2) = Some [''1000'']
             \<and> map_option (map (\<lambda>c. map m_text (c_messages c))) (bm_stored s2)
                 = Some [[js ''is this available?'', js ''still there?'']]))"
  by (simp add: createOrUpdateConversation_def book_page_def alice_def Let_def
      same_conversation_def newConversation_def newMessage_def push_message_def dec_1000)

text \<open>
  Claim C1 at two calls of \<open>createNewConversation\<close> with the same user, seller and book, at
  the times 1000 and 2000: it does not look for a conversation. The calls return two ids,
  and the list and the store hold two conversations for the book and the two users.
\<close>

theorem createNewConversation_duplicates:
  "fst (createNewConversation seller_bob book42 (js ''is this available?'') 1000 (dashboard alice))
     = Inr ''1000''
   \<and> fst (createNewConversation seller_bob book42 (js ''is this available?'') 2000
        (snd (createNewConversation seller_bob book42 (js ''is this available?'') 1000
           (dashboard alice))))
     = Inr ''2000''
   \<and> map c_id (ms_conversations created_twice) = [''1000'', ''2000'']
   \<and> map c_id (conversations_of ''book-42'' ''u2'' ''u1'' (ms_conversations created_twice))
     = [''1000'', ''2000'']
   \<and> ms_stored created_twice = Some (ms_conversations created_twice)"
  by (simp add: created_twice_def createNewConversation_def dashboard_def alice_def
      seller_bob_def book42_def saveConversationsToStorage_def newConversation_def
      conversations_of_def same_conversation_def dec_1000 dec_2000)

subsection \<open>Sending a message\<close>

lemma saveConversationsToStorage_fields [simp]:
  "ms_conversations (saveConversationsToStorage s) = ms_conversations s"
  "ms_stored (saveConversationsToStorage s) = Some (ms_conversations s)"
  "ms_writes (saveConversationsToStorage s) = Suc (ms_writes s)"
  "ms_currentUser (saveConversationsToStorage s) = ms_currentUser s"
  "ms_activeConversationId (saveConversationsToStorage s) = ms_activeConversationId s"
  "ms_chatInput (saveConversationsToStorage s) = ms_chatInput s"
  "ms_alerts (saveConversationsToStorage s) = ms_alerts s"
  "ms_list (saveConversationsToStorage s) = ms_list s"
  "ms_chat (saveConversationsToStorage s) = ms_chat s"
  "ms_header (saveConversationsToStorage s) = ms_header s"
  by (simp_all add: saveConversationsToStorage_def)

lemma update_first_at:
  "i < length xs \<Longrightarrow> P (xs ! i) \<Longrightarrow> \<forall>j<i. \<not> P (xs ! j) \<Longrightarrow>
   update_first P f xs = xs[i := f (xs ! i)]"
proof (induction xs arbitrary: i)
  case Nil
  then show ?case by simp
next
  case (Cons a xs)
  show ?case
  proof (cases i)
    case 0
    with Cons.prems show ?thesis by simp
  next
    case (Suc k)
    with Cons.prems have "\<not> P a" by auto
    moreover have "update_first P f xs = xs[k := f (xs ! k)]"
      using Cons.prems Suc by (intro Cons.IH) auto
    ultimately show ?thesis using Suc by simp
  qed
qed

lemma find_Some_at:
  "i < length xs \<Longrightarrow> P (xs ! i) \<Longrightarrow> find P xs \<noteq> None"
  by (metis find_None_iff nth_mem)

lemma displayConversations_fields [simp]:
  "ms_conversations (snd (displayConversations s)) = ms_conversations s"
  "ms_stored (snd (displayConversations s)) = ms_stored s"
  "ms_writes (snd (displayConversations s)) = ms_writes s"
  "ms_currentUser (snd (displayConversations s)) = ms_currentUser s"
  "ms_activeConversationId (snd (displayConversations s)) = ms_activeConversationId s"
  "ms_chatInput (snd (displayConversations s)) = ms_chatInput s"
  "ms_alerts (snd (displayConversations s)) = ms_alerts s"
  by (simp_all add: displayConversations_def split: option.splits)

lemma displayMessages_fields [simp]:
  "ms_conversations (snd (displayMessages ms s)) = ms_conversations s"
  "ms_stored (snd (displayMessages ms s)) = ms_stored s"
  "ms_writes (snd (displayMessages ms s)) = ms_writes s"
  "ms_currentUser (snd (displayMessages ms s)) = ms_currentUser s"
  "ms_activeConversationId (snd (displayMessages ms s)) = ms_activeConversationId s"
  "ms_chatInput (snd (displayMessages ms s)) = ms_chatInput s"
  "ms_alerts (snd (displayMessages ms s)) = ms_alerts s"
  by (simp_all add: displayMessages_def split: option.splits)

lemma updateChatHeader_fields [simp]:
  "ms_conversations (snd (updateChatHeader p t s)) = ms_conversations s"
  "ms_stored (snd (updateChatHeader p t s)) = ms_stored s"
  "ms_writes (snd (updateChatHeader p t s)) = ms_writes s"
  "ms_currentUser (snd (updateChatHeader p t s)) = ms_currentUser s"
  "ms_activeConversationId (snd (updateChatHeader p t s)) = ms_activeConversationId s"
  "ms_chatInput (snd (updateChatHeader p t s)) = ms_chatInput s"
  "ms_alerts (snd (updateChatHeader p t s)) = ms_alerts s"
  by (simp_all add: updateChatHeader_def split: option.splits)

lemma and_then_keeps:
  assumes "P (snd r)" and "\<And>s. P s \<Longrightarrow> P (snd (f s))"
  shows "P (snd (and_then r f))"
  using assms by (cases r; cases "fst r") (auto simp: and_then_def)

lemma and_then_ok:
  "fst (and_then r f) = None \<Longrightarrow> fst r = None \<and> and_then r f = f (snd r)"
  by (cases r; cases "fst r") (auto simp: and_then_def)

lemma trim_blank: "trim (js ''  '' @ [0xA0]) = []"
  by (simp add: trim_def is_ws_def js_def)

lemma trim_typed: "trim (js '' still there?'' @ [0xA0]) = js ''still there?''"
  by (simp add: trim_def is_ws_def js_def)

lemma trim_hello: "trim (js ''hello'') = js ''hello''"
  by (simp add: trim_def is_ws_def js_def)

text \<open>
  Claim C6, as amended. For a logged-in user and with the chat input on the page,
  \<open>sendMessage\<close> returns without an error and changes nothing when the text is empty after
  trimming or when no conversation has the active id; without an active conversation it
  returns after an alert and changes nothing else. Otherwise it appends one message,
  unread, with the current time, the trimmed text and the user as sender, at the end of the
  messages of the first conversation with the active id, and stores the conversations; the
  input is emptied when the call ends without an error.
\<close>

theorem sendMessage_contract:
  assumes "ms_chatInput s = Some v" and "ms_currentUser s = Some u"
  shows "(trim v = [] \<longrightarrow> sendMessage now s = (None, s))
   \<and> (trim v \<noteq> [] \<and> (ms_activeConversationId s = None \<or> ms_activeConversationId s = Some [])
        \<longrightarrow> sendMessage now s
              = (None, s\<lparr>ms_alerts := ms_alerts s @ [''Please select a conversation first.'']\<rparr>))
   \<and> (\<forall>cid. trim v \<noteq> [] \<and> ms_activeConversationId s = Some cid \<and> cid \<noteq> []
          \<and> cid \<notin> c_id ` set (ms_conversations s)
        \<longrightarrow> sendMessage now s = (None, s))
   \<and> (\<forall>i cid. trim v \<noteq> [] \<and> ms_activeConversationId s = Some cid \<and> cid \<noteq> []
          \<and> i < length (ms_conversations s) \<and> c_id (ms_conversations s ! i) = cid
          \<and> (\<forall>j<i. c_id (ms_conversations s ! j) \<noteq> cid) \<longrightarrow>
        ms_conversations (snd (sendMessage now s))
            = (ms_conversations s)
                [i := (ms_conversations s ! i)
                   \<lparr>c_messages := c_messages (ms_conversations s ! i)
                       @ [newMessage now (u_id u) (trim v)]\<rparr>]
        \<and> \<not> m_read (newMessage now (u_id u) (trim v))
        \<and> m_timestamp (newMessage now (u_id u) (trim v)) = now
        \<and> m_text (newMessage now (u_id u) (trim v)) = trim v
        \<and> m_senderId (newMessage now (u_id u) (trim v)) = u_id u
        \<and> ms_stored (snd (sendMessage now s)) = Some (ms_conversations (snd (sendMessage now s)))
        \<and> ms_writes (snd (sendMessage now s)) = Suc (ms_writes s)
        \<and> (fst (sendMessage now s) = None \<longrightarrow> ms_chatInput (snd (sendMessage now s)) = Some []))"
proof (intro conjI impI allI)
  assume "trim v = []"
  with assms show "sendMessage now s = (None, s)"
    by (simp add: sendMessage_def)
next
  assume "trim v \<noteq> [] \<and> (ms_activeConversationId s = None \<or> ms_activeConversationId s = Some [])"
  with assms show "sendMessage now s
      = (None, s\<lparr>ms_alerts := ms_alerts s @ [''Please select a conversation first.'']\<rparr>)"
    by (auto simp: sendMessage_def Let_def)
next
  fix cid
  assume h: "trim v \<noteq> [] \<and> ms_activeConversationId s = Some cid \<and> cid \<noteq> []
          \<and> cid \<notin> c_id ` set (ms_conversations s)"
  then have "find (\<lambda>c. Some (c_id c) = ms_activeConversationId s) (ms_conversations s) = None"
    by (auto simp: find_None_iff)
  with assms h show "sendMessage now s = (None, s)"
    by (auto simp: sendMessage_def Let_def)
next
  fix i cid
  assume h: "trim v \<noteq> [] \<and> ms_activeConversationId s = Some cid \<and> cid \<noteq> []
          \<and> i < length (ms_conversations s) \<and> c_id (ms_conversations s ! i) = cid
          \<and> (\<forall>j<i. c_id (ms_conversations s ! j) \<noteq> cid)"
  let ?m = "newMessage now (u_id u) (trim v)"
  let ?P = "\<lambda>c. Some (c_id c) = ms_activeConversationId s"
  let ?s1 = "saveConversationsToStorage
      (s\<lparr>ms_conversations := update_first ?P (push_message ?m) (ms_conversations s)\<rparr>)"
  from h have "find ?P (ms_conversations s) \<noteq> None"
    by (intro find_Some_at [of i]) auto
  then obtain c where f: "find ?P (ms_conversations s) = Some c"
    by auto
  from h have upd: "update_first ?P (push_message ?m) (ms_conversations s)
      = (ms_conversations s)[i := push_message ?m (ms_conversations s ! i)]"
    by (intro update_first_at) auto
  have r: "sendMessage now s
     = and_then (and_then (displayMessages (c_messages c @ [?m]) ?s1) displayConversations)
         (\<lambda>s2. (None, s2\<lparr>ms_chatInput := Some []\<rparr>))"
    using assms h f by (auto simp: sendMessage_def Let_def)
  have k: "ms_conversations (snd (sendMessage now s)) = ms_conversations ?s1
      \<and> ms_stored (snd (sendMessage now s)) = ms_stored ?s1
      \<and> ms_writes (snd (sendMessage now s)) = ms_writes ?s1"
    unfolding r
    by (intro and_then_keeps
        [where P = "\<lambda>x. ms_conversations x = ms_conversations ?s1
          \<and> ms_stored x = ms_stored ?s1 \<and> ms_writes x = ms_writes ?s1"])
       simp_all
  show "ms_conversations (snd (sendMessage now s))
            = (ms_conversations s)
                [i := (ms_conversations s ! i)
                   \<lparr>c_messages := c_messages (ms_conversations s ! i) @ [?m]\<rparr>]"
    using k by (simp add: upd push_message_def)
  show "\<not> m_read ?m" by (simp add: newMessage_def)
  show "m_timestamp ?m = now" by (simp add: newMessage_def)
  show "m_text ?m = trim v" by (simp add: newMessage_def)
  show "m_senderId ?m = u_id u" by (simp add: newMessage_def)
  show "ms_stored (snd (sendMessage now s)) = Some (ms_conversations (snd (sendMessage now s)))"
    using k by simp
  show "ms_writes (snd (sendMessage now s)) = Suc (ms_writes s)"
    using k by simp
  show "ms_chatInput (snd (sendMessage now s)) = Some []" if t: "fst (sendMessage now s) = None"
  proof -
    let ?r = "and_then (displayMessages (c_messages c @ [?m]) ?s1) displayConversations"
    from t have "and_then ?r (\<lambda>s2. (None, s2\<lparr>ms_chatInput := Some []\<rparr>))
        = (None, (snd ?r)\<lparr>ms_chatInput := Some []\<rparr>)"
      unfolding r by (rule and_then_ok [THEN conjunct2])
    then show ?thesis
      unfolding r by simp
  qed
qed

theorem sendMessage_contract_witness:
  "ms_chatInput typed = Some (js '' still there?'' @ [0xA0]) \<and> ms_currentUser typed = Some alice
   \<and> map c_messages (ms_conversations (snd (sendMessage 3000 typed)))
       = [[newMessage 1000 ''u1'' (js ''is this available?''),
           newMessage 3000 ''u1'' (js ''still there?'')]]
   \<and> ms_stored (snd (sendMessage 3000 typed)) = Some (ms_conversations (snd (sendMessage 3000 typed)))
   \<and> sendMessage 3000 blank_input = (None, blank_input)
   \<and> sendMessage 3000 missing_ref = (None, missing_ref)"
proof -
  have a: "ms_chatInput typed = Some (js '' still there?'' @ [0xA0])"
    "ms_currentUser typed = Some alice"
    by (simp_all add: typed_def dashboard_with_def dashboard_def)
  have c: "ms_conversations typed = asked" "ms_activeConversationId typed = Some ''1000''"
    by (simp_all add: typed_def dashboard_with_def dashboard_def)
  have i: "trim (js '' still there?'' @ [0xA0]) \<noteq> [] \<and> ms_activeConversationId typed = Some ''1000''
      \<and> ''1000'' \<noteq> []
      \<and> 0 < length (ms_conversations typed) \<and> c_id (ms_conversations typed ! 0) = ''1000''
      \<and> (\<forall>j<0. c_id (ms_conversations typed ! j) \<noteq> ''1000'')"
    by (simp add: c trim_typed) (simp add: asked_def newConversation_def dec_1000 js_def)
  have b: "ms_chatInput blank_input = Some (js ''  '' @ [0xA0])"
    "ms_currentUser blank_input = Some alice"
    by (simp_all add: blank_input_def typed_def dashboard_with_def dashboard_def)
  have m: "ms_chatInput missing_ref = Some (js ''hello'')" "ms_currentUser missing_ref = Some alice"
    by (simp_all add: missing_ref_def dashboard_with_def dashboard_def)
  have mi: "trim (js ''hello'') \<noteq> [] \<and> ms_activeConversationId missing_ref = Some ''9999''
      \<and> ''9999'' \<noteq> [] \<and> ''9999'' \<notin> c_id ` set (ms_conversations missing_ref)"
    by (simp add: trim_hello)
       (simp add: missing_ref_def dashboard_with_def dashboard_def asked_def newConversation_def
         dec_1000 js_def)
  from sendMessage_contract [OF a, of 3000] i
  have 2: "ms_conversations (snd (sendMessage 3000 typed))
            = (ms_conversations typed)
                [0 := (ms_conversations typed ! 0)
                   \<lparr>c_messages := c_messages (ms_conversations typed ! 0)
                       @ [newMessage 3000 (u_id alice) (trim (js '' still there?'' @ [0xA0]))]\<rparr>]"
    and 3: "ms_stored (snd (sendMessage 3000 typed)) = Some (ms_conversations (snd (sendMessage 3000 typed)))"
    by blast+
  from sendMessage_contract [OF b, of 3000]
  have 4: "sendMessage 3000 blank_input = (None, blank_input)"
    using trim_blank by blast
  from sendMessage_contract [OF m, of 3000] mi
  have 5: "sendMessage 3000 missing_ref = (None, missing_ref)"
    by blast
  show ?thesis
    using a 3 4 5
    by (simp add: 2 c trim_typed) (simp add: asked_def newConversation_def alice_def)
qed

text \<open>
  The claim as stated has the call rejected with \<open>NotFound\<close> or with \<open>EmptyBody\<close>. Neither is
  raised or returned: for the id of no conversation and for a text of white space the call
  returns as it does after a message has been sent, with no alert and no change.
\<close>

theorem sendMessage_rejects_silently:
  "sendMessage 3000 missing_ref = (None, missing_ref)
   \<and> sendMessage 3000 blank_input = (None, blank_input)
   \<and> fst (sendMessage 3000 typed) = None
   \<and> ms_conversations (snd (sendMessage 3000 typed)) \<noteq> ms_conversations typed"
  by (simp add: sendMessage_def missing_ref_def blank_input_def typed_def dashboard_with_def
      dashboard_def asked_def newConversation_def newMessage_def dec_1000 trim_def is_ws_def
      Let_def and_then_def displayMessages_def displayConversations_def
      createConversationItem_def saveConversationsToStorage_def push_message_def alice_def
      seller_bob_def js_def)

subsection \<open>The read flag of a message\<close>



















lemma markMessagesAsRead_user [simp]:
  "ms_currentUser (snd (markMessagesAsRead cid s)) = ms_currentUser s"
  by (auto simp: markMessagesAsRead_def split: option.splits)




















end
